theory Spec2Isabelle
  imports Main
begin

section \<open>The token route of the Kairos web front end\<close>

text \<open>
  A shallow embedding of \<^verbatim>\<open>src/web/src/app/api/token/route.ts\<close>: the \<^verbatim>\<open>GET\<close> handler
  that validates the query parameters, reads the LiveKit configuration from the process
  environment, asks the room service to create the room and signs an access token.

  The two awaited calls of the handler (\<^verbatim>\<open>roomService.createRoom\<close> and \<^verbatim>\<open>at.toJwt\<close>) belong
  to the LiveKit SDK. They are parameters of the model: each takes the state of the outside
  world and returns either the thrown value or its result, together with the new state.
  The handler returns its outcome (a response, or the exception that escapes it), the
  list of outside calls it made in order, and the final state of the world.
\<close>

subsection \<open>JavaScript values\<close>

text \<open>A value that can be thrown.\<close>

datatype exn = Error string

text \<open>The values that occur in the object literals of the handler.\<close>

datatype jval = JBool bool | JStr string

type_synonym js_object = "(string \<times> jval) list"

text \<open>
  \<^verbatim>\<open>!v\<close> for a \<^verbatim>\<open>string | null\<close> (or \<^verbatim>\<open>string | undefined\<close>) value: true for the missing
  value and for the empty string, false for every other string.
\<close>

definition falsy :: "string option \<Rightarrow> bool" where
  "falsy v = (case v of None \<Rightarrow> True | Some s \<Rightarrow> s = [])"

subsection \<open>JSON.stringify\<close>

definition hex_digit :: "nat \<Rightarrow> char" where
  "hex_digit n = (if n < 10 then char_of (48 + n) else char_of (87 + n))"

text \<open>
  The escape of one character inside a JSON string: the short escapes for backspace, tab,
  line feed, form feed, carriage return, the double quote and the backslash, a
  \<^verbatim>\<open>\u00xx\<close> escape for the other control characters, and the character itself otherwise.
\<close>

definition JSON_escape :: "char \<Rightarrow> string" where
  "JSON_escape c =
     (let n = (of_char c :: nat) in
      if n = 0x08 then [CHR 0x5C, CHR ''b'']
      else if n = 0x09 then [CHR 0x5C, CHR ''t'']
      else if n = 0x0A then [CHR 0x5C, CHR ''n'']
      else if n = 0x0C then [CHR 0x5C, CHR ''f'']
      else if n = 0x0D then [CHR 0x5C, CHR ''r'']
      else if n = 0x22 then [CHR 0x5C, CHR 0x22]
      else if n = 0x5C then [CHR 0x5C, CHR 0x5C]
      else if n < 0x20 then
        [CHR 0x5C, CHR ''u'', CHR ''0'', CHR ''0'', hex_digit (n div 16), hex_digit (n mod 16)]
      else [c])"

definition JSON_quote :: "string \<Rightarrow> string" where
  "JSON_quote s = [CHR 0x22] @ concat (map JSON_escape s) @ [CHR 0x22]"

fun JSON_stringify_value :: "jval \<Rightarrow> string" where
  "JSON_stringify_value (JBool b) = (if b then ''true'' else ''false'')"
| "JSON_stringify_value (JStr s) = JSON_quote s"

fun join_comma :: "string list \<Rightarrow> string" where
  "join_comma [] = []"
| "join_comma [x] = x"
| "join_comma (x # y # ys) = x @ '','' @ join_comma (y # ys)"

definition JSON_stringify :: "js_object \<Rightarrow> string" where
  "JSON_stringify obj =
     ''{'' @ join_comma (map (\<lambda>(k, v). JSON_quote k @ '':'' @ JSON_stringify_value v) obj) @ ''}''"

subsection \<open>The request, the environment and the response\<close>

text \<open>\<^verbatim>\<open>request.nextUrl.searchParams\<close>: the query parameters in the order of the URL.\<close>

record request =
  searchParams :: "(string \<times> string) list"

text \<open>\<^verbatim>\<open>searchParams.get(key)\<close>: the first value of the key, or null.\<close>

definition searchParams_get :: "(string \<times> string) list \<Rightarrow> string \<Rightarrow> string option" where
  "searchParams_get ps k = map_of ps k"

text \<open>\<^verbatim>\<open>process.env\<close>.\<close>

type_synonym process_env = "string \<rightharpoonup> string"

text \<open>\<^verbatim>\<open>NextResponse.json(body, { status })\<close>; the status is 200 when none is given.\<close>

record response =
  status :: nat
  body :: js_object

definition NextResponse_json :: "js_object \<Rightarrow> nat option \<Rightarrow> response" where
  "NextResponse_json b init =
     \<lparr>status = (case init of None \<Rightarrow> 200 | Some s \<Rightarrow> s), body = b\<rparr>"

subsection \<open>The LiveKit SDK as the handler uses it\<close>

datatype room_service_client = RoomServiceClient string string string

record create_options =
  name :: string
  emptyTimeout :: nat
  maxParticipants :: nat
  metadata :: string

text \<open>
  An \<^verbatim>\<open>AccessToken\<close> object: the key and secret it was constructed with, the identity and
  ttl of its options, and its video grant. A new token has an empty grant; \<^verbatim>\<open>addGrant\<close>
  lays the fields of its argument over the grant held so far.
\<close>

record access_token =
  apiKey :: string
  apiSecret :: string
  identity :: string
  ttl :: string
  video :: js_object

definition AccessToken :: "string \<Rightarrow> string \<Rightarrow> string \<Rightarrow> string \<Rightarrow> access_token" where
  "AccessToken k s ident t = \<lparr>apiKey = k, apiSecret = s, identity = ident, ttl = t, video = []\<rparr>"

definition addGrant :: "js_object \<Rightarrow> access_token \<Rightarrow> access_token" where
  "addGrant g a = a\<lparr>video := g @ video a\<rparr>"

text \<open>
  The two awaited SDK calls. \<open>Inl\<close> is the value thrown (the promise rejects), \<open>Inr\<close> the
  resolved value; the resolved room of \<^verbatim>\<open>createRoom\<close> is not used by the handler.
\<close>

record 'w sdk =
  createRoom :: "room_service_client \<Rightarrow> create_options \<Rightarrow> 'w \<Rightarrow> (exn + unit) \<times> 'w"
  toJwt :: "access_token \<Rightarrow> 'w \<Rightarrow> (exn + string) \<times> 'w"

text \<open>
  What the handler does to the outside, in order. The room service of the SDK also offers
  calls that delete a room or change its metadata; they are listed so that their absence
  from a trace can be stated.
\<close>

datatype event =
    ConsoleError string "exn option"
  | CreateRoomCall room_service_client create_options
  | DeleteRoomCall room_service_client string
  | UpdateRoomMetadataCall room_service_client string string
  | ToJwtCall access_token

type_synonym 'w result = "(exn + response) \<times> event list \<times> 'w"

subsection \<open>The handler\<close>

text \<open>Lines 28 to 58: the body of the \<^verbatim>\<open>try\<close> block.\<close>

definition try_block ::
  "'w sdk \<Rightarrow> string \<Rightarrow> string \<Rightarrow> string \<Rightarrow> string \<Rightarrow> string \<Rightarrow> 'w \<Rightarrow> 'w result" where
  "try_block sdk roomName participantName apiKey' apiSecret' livekitUrl w =
     (let roomService = RoomServiceClient livekitUrl apiKey' apiSecret';
          opts = \<lparr>name = roomName,
                  emptyTimeout = 60 * 10,
                  maxParticipants = 2,
                  metadata = JSON_stringify [(''created_by'', JStr participantName)]\<rparr>
      in case createRoom sdk roomService opts w of
           (Inl e, w1) \<Rightarrow> (Inl e, [CreateRoomCall roomService opts], w1)
         | (Inr _, w1) \<Rightarrow>
             (let at0 = AccessToken apiKey' apiSecret' participantName ''1h'';
                  at = addGrant [(''roomJoin'', JBool True),
                                 (''room'', JStr roomName),
                                 (''canPublish'', JBool True),
                                 (''canSubscribe'', JBool True),
                                 (''canPublishData'', JBool True),
                                 (''agent'', JBool True)] at0
              in case toJwt sdk at w1 of
                   (Inl e, w2) \<Rightarrow>
                     (Inl e, [CreateRoomCall roomService opts, ToJwtCall at], w2)
                 | (Inr token, w2) \<Rightarrow>
                     (Inr (NextResponse_json [(''token'', JStr token), (''url'', JStr livekitUrl)] None),
                      [CreateRoomCall roomService opts, ToJwtCall at], w2)))"

text \<open>Lines 59 to 83: the \<^verbatim>\<open>catch\<close> clause, entered with the value thrown in the block.\<close>

definition catch_block ::
  "'w sdk \<Rightarrow> string \<Rightarrow> string \<Rightarrow> string \<Rightarrow> string \<Rightarrow> string \<Rightarrow> exn \<Rightarrow> 'w \<Rightarrow> 'w result" where
  "catch_block sdk roomName participantName apiKey' apiSecret' livekitUrl error w =
     (let at0 = AccessToken apiKey' apiSecret' participantName ''1h'';
          at = addGrant [(''roomJoin'', JBool True),
                         (''room'', JStr roomName),
                         (''canPublish'', JBool True),
                         (''canSubscribe'', JBool True),
                         (''canPublishData'', JBool True),
                         (''agent'', JBool True)] at0
      in case toJwt sdk at w of
           (Inl e, w') \<Rightarrow>
             (Inl e, [ConsoleError ''Error creating room/token:'' (Some error), ToJwtCall at], w')
         | (Inr token, w') \<Rightarrow>
             (Inr (NextResponse_json [(''token'', JStr token), (''url'', JStr livekitUrl)] None),
              [ConsoleError ''Error creating room/token:'' (Some error), ToJwtCall at], w'))"

text \<open>The whole handler, lines 4 to 84.\<close>

definition GET :: "'w sdk \<Rightarrow> process_env \<Rightarrow> request \<Rightarrow> 'w \<Rightarrow> 'w result" where
  "GET sdk env req w =
     (let roomName = searchParams_get (searchParams req) ''room'';
          participantName = searchParams_get (searchParams req) ''username''
      in if falsy roomName \<or> falsy participantName then
           (Inr (NextResponse_json [(''error'', JStr ''Missing room or username'')] (Some 400)),
            [], w)
         else
           (let apiKey' = env ''LIVEKIT_API_KEY'';
                apiSecret' = env ''LIVEKIT_API_SECRET'';
                livekitUrl = env ''LIVEKIT_URL''
            in if falsy apiKey' \<or> falsy apiSecret' \<or> falsy livekitUrl then
                 (Inr (NextResponse_json [(''error'', JStr ''Server configuration error'')] (Some 500)),
                  [ConsoleError ''LiveKit credentials not set'' None], w)
               else
                 (case try_block sdk (the roomName) (the participantName)
                         (the apiKey') (the apiSecret') (the livekitUrl) w of
                    (Inr r, evs, w1) \<Rightarrow> (Inr r, evs, w1)
                  | (Inl error, evs, w1) \<Rightarrow>
                      (case catch_block sdk (the roomName) (the participantName)
                              (the apiKey') (the apiSecret') (the livekitUrl) error w1 of
                         (r, evs', w2) \<Rightarrow> (r, evs @ evs', w2)))))"

subsection \<open>Whitespace trimming\<close>

text \<open>
  \<^verbatim>\<open>String.prototype.trim\<close>, which the page (\<^verbatim>\<open>src/web/src/app/page.tsx\<close>, line 36) applies
  to the user name before it calls the route: the white space and line terminator
  characters are removed from both ends.
\<close>

definition is_white_space :: "char \<Rightarrow> bool" where
  "is_white_space c = ((of_char c :: nat) \<in> {0x09, 0x0A, 0x0B, 0x0C, 0x0D, 0x20, 0xA0})"

definition trim :: "string \<Rightarrow> string" where
  "trim s = rev (dropWhile is_white_space (rev (dropWhile is_white_space s)))"

subsection \<open>Reading the room metadata back\<close>







subsection \<open>Expiry of a token\<close>

text \<open>
  Modelled from the spec: the signing library that reads the \<^verbatim>\<open>ttl\<close> of a token and writes
  its expiry claim is not in the repository. The spec gives a credential a time-to-live
  counted from issuance and calls it expired once that time has passed; \<^verbatim>\<open>"1h"\<close> is the
  library's notation for a span of one hour (a decimal number followed by a unit
  \<^verbatim>\<open>s\<close>, \<^verbatim>\<open>m\<close>, \<^verbatim>\<open>h\<close> or \<^verbatim>\<open>d\<close>). Times are seconds.
\<close>

definition unit_seconds :: "char \<Rightarrow> nat option" where
  "unit_seconds c =
     (if c = CHR ''s'' then Some 1
      else if c = CHR ''m'' then Some 60
      else if c = CHR ''h'' then Some 3600
      else if c = CHR ''d'' then Some 86400
      else None)"

fun decimal :: "nat \<Rightarrow> string \<Rightarrow> nat option" where
  "decimal acc [] = Some acc"
| "decimal acc (c # cs) =
     (let n = (of_char c :: nat) in
      if 48 \<le> n \<and> n \<le> 57 then decimal (10 * acc + (n - 48)) cs else None)"

definition ttl_seconds :: "string \<Rightarrow> nat option" where
  "ttl_seconds s =
     (if length s < 2 then None
      else case (decimal 0 (butlast s), unit_seconds (last s)) of
             (Some n, Some u) \<Rightarrow> Some (n * u)
           | _ \<Rightarrow> None)"

text \<open>A token signed at time \<open>issued\<close> is valid at time \<open>t\<close> until its time-to-live has passed.\<close>

definition valid_at :: "access_token \<Rightarrow> nat \<Rightarrow> nat \<Rightarrow> bool" where
  "valid_at a issued t =
     (case ttl_seconds (ttl a) of
        None \<Rightarrow> False
      | Some d \<Rightarrow> issued \<le> t \<and> t < issued + d)"

subsection \<open>The values the handler builds\<close>

text \<open>
  Shorthand for the three object literals of the handler: the options of the
  \<^verbatim>\<open>createRoom\<close> call (lines 31 to 36), the token after \<^verbatim>\<open>addGrant\<close> (lines 39 to 51 and 63
  to 75), and the body of the success response (lines 55 to 58 and 79 to 82).
\<close>

abbreviation room_options :: "string \<Rightarrow> string \<Rightarrow> create_options" where
  "room_options r u \<equiv>
     \<lparr>name = r, emptyTimeout = 600, maxParticipants = 2,
      metadata = JSON_stringify [(''created_by'', JStr u)]\<rparr>"

abbreviation join_token :: "string \<Rightarrow> string \<Rightarrow> string \<Rightarrow> string \<Rightarrow> access_token" where
  "join_token k s r u \<equiv>
     \<lparr>apiKey = k, apiSecret = s, identity = u, ttl = ''1h'',
      video = [(''roomJoin'', JBool True), (''room'', JStr r),
               (''canPublish'', JBool True), (''canSubscribe'', JBool True),
               (''canPublishData'', JBool True), (''agent'', JBool True)]\<rparr>"

abbreviation token_response :: "string \<Rightarrow> string \<Rightarrow> response" where
  "token_response tok url \<equiv>
     \<lparr>status = 200, body = [(''token'', JStr tok), (''url'', JStr url)]\<rparr>"

text \<open>The events that are calls to the room service.\<close>

fun room_service_call :: "event \<Rightarrow> bool" where
  "room_service_call (CreateRoomCall _ _) = True"
| "room_service_call (DeleteRoomCall _ _) = True"
| "room_service_call (UpdateRoomMetadataCall _ _ _) = True"
| "room_service_call _ = False"

text \<open>The events that delete a room or change one that exists.\<close>

fun changes_existing_room :: "event \<Rightarrow> bool" where
  "changes_existing_room (DeleteRoomCall _ _) = True"
| "changes_existing_room (UpdateRoomMetadataCall _ _ _) = True"
| "changes_existing_room _ = False"

subsection \<open>Valid requests and complete configurations\<close>

text \<open>
  The requests and configurations that pass the two guards of the handler (lines 8 and
  19), with the values they carry: both parameters present and not empty, all three
  variables set and not empty.
\<close>

definition valid_request :: "request \<Rightarrow> string \<Rightarrow> string \<Rightarrow> bool" where
  "valid_request req r u =
     (searchParams_get (searchParams req) ''room'' = Some r \<and> r \<noteq> [] \<and>
      searchParams_get (searchParams req) ''username'' = Some u \<and> u \<noteq> [])"

definition complete_config :: "process_env \<Rightarrow> string \<Rightarrow> string \<Rightarrow> string \<Rightarrow> bool" where
  "complete_config env k s url =
     (env ''LIVEKIT_API_KEY'' = Some k \<and> k \<noteq> [] \<and>
      env ''LIVEKIT_API_SECRET'' = Some s \<and> s \<noteq> [] \<and>
      env ''LIVEKIT_URL'' = Some url \<and> url \<noteq> [])"

subsection \<open>Example worlds\<close>

text \<open>
  A room service that keeps the names of its rooms and refuses to create a room twice,
  with a signer that always succeeds; the same room service with a signer that always
  throws; a complete configuration and the request of the spec's scenario.
\<close>

definition demo_createRoom ::
  "room_service_client \<Rightarrow> create_options \<Rightarrow> string list \<Rightarrow> (exn + unit) \<times> string list" where
  "demo_createRoom rs opts w =
     (if name opts \<in> set w then (Inl (Error ''room already exists''), w)
      else (Inr (), name opts # w))"

definition demo_sdk :: "string list sdk" where
  "demo_sdk = \<lparr>createRoom = demo_createRoom,
               toJwt = (\<lambda>a w. (Inr (''jwt:'' @ identity a), w))\<rparr>"

definition broken_signer_sdk :: "string list sdk" where
  "broken_signer_sdk = \<lparr>createRoom = demo_createRoom,
                        toJwt = (\<lambda>a w. (Inl (Error ''signing failed''), w))\<rparr>"

definition demo_env :: process_env where
  "demo_env = [''LIVEKIT_API_KEY'' \<mapsto> ''devkey'',
               ''LIVEKIT_API_SECRET'' \<mapsto> ''devsecret'',
               ''LIVEKIT_URL'' \<mapsto> ''wss://kairos.example'']"

definition demo_request :: request where
  "demo_request = \<lparr>searchParams = [(''room'', ''kairos-1700000000-ab12cd''), (''username'', ''Alex'')]\<rparr>"

section \<open>Properties of the handler\<close>

subsection \<open>The paths through the handler\<close>

lemma falsy_simps [simp]: "falsy None" "falsy (Some s) = (s = [])"
  by (simp_all add: falsy_def)

lemma GET_invalid:
  assumes "falsy (searchParams_get (searchParams req) ''room'') \<or>
           falsy (searchParams_get (searchParams req) ''username'')"
  shows "GET sdk env req w =
           (Inr \<lparr>status = 400, body = [(''error'', JStr ''Missing room or username'')]\<rparr>, [], w)"
  using assms by (simp add: GET_def Let_def NextResponse_json_def)

lemma GET_config_missing:
  assumes "\<not> falsy (searchParams_get (searchParams req) ''room'')"
    and "\<not> falsy (searchParams_get (searchParams req) ''username'')"
    and "falsy (env ''LIVEKIT_API_KEY'') \<or> falsy (env ''LIVEKIT_API_SECRET'') \<or>
         falsy (env ''LIVEKIT_URL'')"
  shows "GET sdk env req w =
           (Inr \<lparr>status = 500, body = [(''error'', JStr ''Server configuration error'')]\<rparr>,
            [ConsoleError ''LiveKit credentials not set'' None], w)"
  using assms by (simp add: GET_def Let_def NextResponse_json_def)

lemma GET_valid:
  assumes "valid_request req r u" and "complete_config env k s url"
  shows "GET sdk env req w =
           (case try_block sdk r u k s url w of
              (Inr resp, evs, w1) \<Rightarrow> (Inr resp, evs, w1)
            | (Inl e, evs, w1) \<Rightarrow>
                (case catch_block sdk r u k s url e w1 of
                   (out, evs', w2) \<Rightarrow> (out, evs @ evs', w2)))"
  using assms by (simp add: GET_def Let_def valid_request_def complete_config_def split: prod.split sum.split)

lemma try_block_create_fails:
  assumes "createRoom sdk (RoomServiceClient url k s)
             \<lparr>name = r, emptyTimeout = 600, maxParticipants = 2,
              metadata = JSON_stringify [(''created_by'', JStr u)]\<rparr> w = (Inl e, w1)"
  shows "try_block sdk r u k s url w =
           (Inl e, [CreateRoomCall (RoomServiceClient url k s)
                      \<lparr>name = r, emptyTimeout = 600, maxParticipants = 2,
                       metadata = JSON_stringify [(''created_by'', JStr u)]\<rparr>], w1)"
  using assms by (simp add: try_block_def Let_def)

lemma try_block_create_ok:
  assumes "createRoom sdk (RoomServiceClient url k s)
             \<lparr>name = r, emptyTimeout = 600, maxParticipants = 2,
              metadata = JSON_stringify [(''created_by'', JStr u)]\<rparr> w = (Inr x, w1)"
  shows "try_block sdk r u k s url w =
           (case toJwt sdk \<lparr>apiKey = k, apiSecret = s, identity = u, ttl = ''1h'',
                    video = [(''roomJoin'', JBool True), (''room'', JStr r),
                             (''canPublish'', JBool True), (''canSubscribe'', JBool True),
                             (''canPublishData'', JBool True), (''agent'', JBool True)]\<rparr> w1 of
              (Inl e, w2) \<Rightarrow>
                (Inl e, [CreateRoomCall (RoomServiceClient url k s)
                      \<lparr>name = r, emptyTimeout = 600, maxParticipants = 2,
                       metadata = JSON_stringify [(''created_by'', JStr u)]\<rparr>,
                    ToJwtCall \<lparr>apiKey = k, apiSecret = s, identity = u, ttl = ''1h'',
                    video = [(''roomJoin'', JBool True), (''room'', JStr r),
                             (''canPublish'', JBool True), (''canSubscribe'', JBool True),
                             (''canPublishData'', JBool True), (''agent'', JBool True)]\<rparr>], w2)
            | (Inr token, w2) \<Rightarrow>
                (Inr \<lparr>status = 200, body = [(''token'', JStr token), (''url'', JStr url)]\<rparr>,
                 [CreateRoomCall (RoomServiceClient url k s)
                      \<lparr>name = r, emptyTimeout = 600, maxParticipants = 2,
                       metadata = JSON_stringify [(''created_by'', JStr u)]\<rparr>,
                    ToJwtCall \<lparr>apiKey = k, apiSecret = s, identity = u, ttl = ''1h'',
                    video = [(''roomJoin'', JBool True), (''room'', JStr r),
                             (''canPublish'', JBool True), (''canSubscribe'', JBool True),
                             (''canPublishData'', JBool True), (''agent'', JBool True)]\<rparr>], w2))"
  using assms by (simp add: try_block_def Let_def AccessToken_def addGrant_def NextResponse_json_def split: prod.split sum.split)

lemma catch_block_eq:
  "catch_block sdk r u k s url err w =
           (case toJwt sdk \<lparr>apiKey = k, apiSecret = s, identity = u, ttl = ''1h'',
                    video = [(''roomJoin'', JBool True), (''room'', JStr r),
                             (''canPublish'', JBool True), (''canSubscribe'', JBool True),
                             (''canPublishData'', JBool True), (''agent'', JBool True)]\<rparr> w of
              (Inl e, w2) \<Rightarrow>
                (Inl e, [ConsoleError ''Error creating room/token:'' (Some err),
                    ToJwtCall \<lparr>apiKey = k, apiSecret = s, identity = u, ttl = ''1h'',
                    video = [(''roomJoin'', JBool True), (''room'', JStr r),
                             (''canPublish'', JBool True), (''canSubscribe'', JBool True),
                             (''canPublishData'', JBool True), (''agent'', JBool True)]\<rparr>], w2)
            | (Inr token, w2) \<Rightarrow>
                (Inr \<lparr>status = 200, body = [(''token'', JStr token), (''url'', JStr url)]\<rparr>,
                 [ConsoleError ''Error creating room/token:'' (Some err),
                    ToJwtCall \<lparr>apiKey = k, apiSecret = s, identity = u, ttl = ''1h'',
                    video = [(''roomJoin'', JBool True), (''room'', JStr r),
                             (''canPublish'', JBool True), (''canSubscribe'', JBool True),
                             (''canPublishData'', JBool True), (''agent'', JBool True)]\<rparr>], w2))"
  by (simp add: catch_block_def Let_def AccessToken_def addGrant_def NextResponse_json_def split: prod.split sum.split)

lemmas demo_defs = demo_sdk_def broken_signer_sdk_def demo_createRoom_def demo_env_def
  demo_request_def searchParams_get_def valid_request_def complete_config_def

lemma demo_valid: "valid_request demo_request ''kairos-1700000000-ab12cd'' ''Alex''"
  by (simp add: demo_defs)
lemma demo_complete: "complete_config demo_env ''devkey'' ''devsecret'' ''wss://kairos.example''"
  by (simp add: demo_defs)

lemma GET_valid_cases:
  assumes "valid_request req r u" and "complete_config env k s url"
  obtains
    (created) w1 tok w2 where
      "createRoom sdk (RoomServiceClient url k s) (room_options r u) w = (Inr (), w1)"
      "toJwt sdk (join_token k s r u) w1 = (Inr tok, w2)"
      "GET sdk env req w =
         (Inr (token_response tok url),
          [CreateRoomCall (RoomServiceClient url k s) (room_options r u),
           ToJwtCall (join_token k s r u)], w2)"
  | (signed_again) w1 e w2 tok w3 where
      "createRoom sdk (RoomServiceClient url k s) (room_options r u) w = (Inr (), w1)"
      "toJwt sdk (join_token k s r u) w1 = (Inl e, w2)"
      "toJwt sdk (join_token k s r u) w2 = (Inr tok, w3)"
      "GET sdk env req w =
         (Inr (token_response tok url),
          [CreateRoomCall (RoomServiceClient url k s) (room_options r u),
           ToJwtCall (join_token k s r u),
           ConsoleError ''Error creating room/token:'' (Some e),
           ToJwtCall (join_token k s r u)], w3)"
  | (signing_failed_twice) w1 e w2 e' w3 where
      "createRoom sdk (RoomServiceClient url k s) (room_options r u) w = (Inr (), w1)"
      "toJwt sdk (join_token k s r u) w1 = (Inl e, w2)"
      "toJwt sdk (join_token k s r u) w2 = (Inl e', w3)"
      "GET sdk env req w =
         (Inl e',
          [CreateRoomCall (RoomServiceClient url k s) (room_options r u),
           ToJwtCall (join_token k s r u),
           ConsoleError ''Error creating room/token:'' (Some e),
           ToJwtCall (join_token k s r u)], w3)"
  | (recovered) e w1 tok w2 where
      "createRoom sdk (RoomServiceClient url k s) (room_options r u) w = (Inl e, w1)"
      "toJwt sdk (join_token k s r u) w1 = (Inr tok, w2)"
      "GET sdk env req w =
         (Inr (token_response tok url),
          [CreateRoomCall (RoomServiceClient url k s) (room_options r u),
           ConsoleError ''Error creating room/token:'' (Some e),
           ToJwtCall (join_token k s r u)], w2)"
  | (recovery_failed) e w1 e' w2 where
      "createRoom sdk (RoomServiceClient url k s) (room_options r u) w = (Inl e, w1)"
      "toJwt sdk (join_token k s r u) w1 = (Inl e', w2)"
      "GET sdk env req w =
         (Inl e',
          [CreateRoomCall (RoomServiceClient url k s) (room_options r u),
           ConsoleError ''Error creating room/token:'' (Some e),
           ToJwtCall (join_token k s r u)], w2)"
proof -
  note G = GET_valid [OF assms, of sdk w]
  obtain c w1 where cr: "createRoom sdk (RoomServiceClient url k s) (room_options r u) w = (c, w1)"
    by (cases "createRoom sdk (RoomServiceClient url k s) (room_options r u) w")
  obtain j w2 where j1: "toJwt sdk (join_token k s r u) w1 = (j, w2)"
    by (cases "toJwt sdk (join_token k s r u) w1")
  obtain j' w3 where j2: "toJwt sdk (join_token k s r u) w2 = (j', w3)"
    by (cases "toJwt sdk (join_token k s r u) w2")
  show thesis
  proof (cases c)
    case (Inl e)
    with cr have t: "try_block sdk r u k s url w =
        (Inl e, [CreateRoomCall (RoomServiceClient url k s) (room_options r u)], w1)"
      by (simp add: try_block_create_fails)
    show thesis
    proof (cases j)
      case (Inl e')
      with j1 have "GET sdk env req w =
         (Inl e',
          [CreateRoomCall (RoomServiceClient url k s) (room_options r u),
           ConsoleError ''Error creating room/token:'' (Some e),
           ToJwtCall (join_token k s r u)], w2)"
        by (simp add: G t catch_block_eq)
      with cr j1 \<open>c = Inl e\<close> Inl show thesis by (auto intro: recovery_failed)
    next
      case (Inr tok)
      with j1 have "GET sdk env req w =
         (Inr (token_response tok url),
          [CreateRoomCall (RoomServiceClient url k s) (room_options r u),
           ConsoleError ''Error creating room/token:'' (Some e),
           ToJwtCall (join_token k s r u)], w2)"
        by (simp add: G t catch_block_eq)
      with cr j1 \<open>c = Inl e\<close> Inr show thesis by (auto intro: recovered)
    qed
  next
    case (Inr x)
    with cr have cr': "createRoom sdk (RoomServiceClient url k s) (room_options r u) w = (Inr (), w1)"
      by simp
    note t = try_block_create_ok [OF cr']
    show thesis
    proof (cases j)
      case (Inr tok)
      with j1 have "GET sdk env req w =
         (Inr (token_response tok url),
          [CreateRoomCall (RoomServiceClient url k s) (room_options r u),
           ToJwtCall (join_token k s r u)], w2)"
        by (simp add: G t)
      with cr' j1 Inr show thesis by (auto intro: created)
    next
      case (Inl e)
      note e = Inl
      show thesis
      proof (cases j')
        case (Inl e')
        with j1 j2 e have "GET sdk env req w =
         (Inl e',
          [CreateRoomCall (RoomServiceClient url k s) (room_options r u),
           ToJwtCall (join_token k s r u),
           ConsoleError ''Error creating room/token:'' (Some e),
           ToJwtCall (join_token k s r u)], w3)"
          by (simp add: G t catch_block_eq)
        with cr' j1 j2 e Inl show thesis by (auto intro: signing_failed_twice)
      next
        case (Inr tok)
        with j1 j2 e have "GET sdk env req w =
         (Inr (token_response tok url),
          [CreateRoomCall (RoomServiceClient url k s) (room_options r u),
           ToJwtCall (join_token k s r u),
           ConsoleError ''Error creating room/token:'' (Some e),
           ToJwtCall (join_token k s r u)], w3)"
          by (simp add: G t catch_block_eq)
        with cr' j1 j2 e Inr show thesis by (auto intro: signed_again)
      qed
    qed
  qed
qed

lemma not_falsy: "\<not> falsy v \<Longrightarrow> \<exists>s. v = Some s \<and> s \<noteq> []"
  by (cases v) simp_all

lemma GET_guards:
  obtains
    (invalid) "falsy (searchParams_get (searchParams req) ''room'') \<or>
               falsy (searchParams_get (searchParams req) ''username'')"
  | (unconfigured) r u where "valid_request req r u"
      "falsy (env ''LIVEKIT_API_KEY'') \<or> falsy (env ''LIVEKIT_API_SECRET'') \<or>
       falsy (env ''LIVEKIT_URL'')"
  | (served) r u k s url where "valid_request req r u" "complete_config env k s url"
  unfolding valid_request_def complete_config_def
  by (metis not_falsy)

subsection \<open>Every signed token has the ttl of one hour\<close>

lemma ttl_one_hour: "ttl_seconds ''1h'' = Some 3600"
  by (simp add: ttl_seconds_def unit_seconds_def)

lemma GET_signs_join_tokens:
  "\<forall>ev \<in> set (fst (snd (GET sdk env req w))). \<forall>a. ev = ToJwtCall a \<longrightarrow> ttl a = ''1h''"
proof (cases rule: GET_guards [where req = req and env = env])
  case invalid
  then show ?thesis by (simp add: GET_invalid)
next
  case (unconfigured r u)
  then show ?thesis by (simp add: GET_config_missing valid_request_def)
next
  case (served r u k s url)
  then show ?thesis
    by (cases rule: GET_valid_cases [where sdk = sdk and w = w]) auto
qed

subsection \<open>The metadata can be read back\<close>







subsection \<open>The two token constructions\<close>

text \<open>
  Claim C10. The token built in the \<^verbatim>\<open>catch\<close> clause is built as the token of the \<^verbatim>\<open>try\<close>
  block is: when room creation has succeeded and left the world in state \<open>w1\<close>, the block
  goes on to sign the same token object that the clause, entered in the same state, signs
  (key, secret, identity the user name, ttl \<^verbatim>\<open>"1h"\<close>, the same six grant fields), and the
  outcome of the two signings and the state they leave are equal. The credential does not
  show whether the room was created.
\<close>

theorem branches_build_same_token:
  assumes "createRoom sdk (RoomServiceClient url k s)
             \<lparr>name = r, emptyTimeout = 600, maxParticipants = 2,
              metadata = JSON_stringify [(''created_by'', JStr u)]\<rparr> w = (Inr (), w1)"
  shows "fst (try_block sdk r u k s url w) = fst (catch_block sdk r u k s url err w1) \<and>
         snd (snd (try_block sdk r u k s url w)) = snd (snd (catch_block sdk r u k s url err w1)) \<and>
         last (fst (snd (try_block sdk r u k s url w))) =
           last (fst (snd (catch_block sdk r u k s url err w1))) \<and>
         last (fst (snd (catch_block sdk r u k s url err w1))) =
           ToJwtCall \<lparr>apiKey = k, apiSecret = s, identity = u, ttl = ''1h'',
                    video = [(''roomJoin'', JBool True), (''room'', JStr r),
                             (''canPublish'', JBool True), (''canSubscribe'', JBool True),
                             (''canPublishData'', JBool True), (''agent'', JBool True)]\<rparr>"
  by (simp add: try_block_create_ok [OF assms] catch_block_eq split: prod.split sum.split)

theorem branches_build_same_token_witness:
  "createRoom demo_sdk (RoomServiceClient ''wss://kairos.example'' ''devkey'' ''devsecret'')
     \<lparr>name = ''lobby'', emptyTimeout = 600, maxParticipants = 2,
      metadata = JSON_stringify [(''created_by'', JStr ''Alex'')]\<rparr> [] = (Inr (), [''lobby'']) \<and>
   fst (try_block demo_sdk ''lobby'' ''Alex'' ''devkey'' ''devsecret'' ''wss://kairos.example'' [])
     = fst (catch_block demo_sdk ''lobby'' ''Alex'' ''devkey'' ''devsecret''
              ''wss://kairos.example'' (Error ''boom'') [''lobby'']) \<and>
   fst (try_block demo_sdk ''lobby'' ''Alex'' ''devkey'' ''devsecret'' ''wss://kairos.example'' [])
     = Inr \<lparr>status = 200,
            body = [(''token'', JStr ''jwt:Alex''), (''url'', JStr ''wss://kairos.example'')]\<rparr>"
proof -
  have h: "createRoom demo_sdk (RoomServiceClient ''wss://kairos.example'' ''devkey'' ''devsecret'')
     \<lparr>name = ''lobby'', emptyTimeout = 600, maxParticipants = 2,
      metadata = JSON_stringify [(''created_by'', JStr ''Alex'')]\<rparr> [] = (Inr (), [''lobby''])"
    by (simp add: demo_sdk_def demo_createRoom_def)
  show ?thesis
    using h branches_build_same_token [OF h, of "Error ''boom''"]
    by (simp add: catch_block_eq demo_sdk_def)
qed

subsection \<open>A signing failure escapes the handler\<close>

text \<open>
  Claim C5 says that the handler always answers with a token and url or with a JSON error
  object, also when signing fails in the \<^verbatim>\<open>catch\<close> clause. The clause calls \<^verbatim>\<open>toJwt\<close>
  outside any \<^verbatim>\<open>try\<close>: with a signer that throws, the exception leaves the handler, both
  when the room was created and when its creation failed.
\<close>

theorem handler_throws_when_signing_fails:
  "fst (GET broken_signer_sdk demo_env demo_request []) = Inl (Error ''signing failed'') \<and>
   fst (GET broken_signer_sdk demo_env demo_request [''kairos-1700000000-ab12cd''])
     = Inl (Error ''signing failed'')"
  by (simp add: GET_valid [OF demo_valid demo_complete] try_block_def catch_block_def Let_def
      broken_signer_sdk_def demo_createRoom_def)

subsection \<open>The configuration guard\<close>

text \<open>
  Claim C1, as amended. If one of \<^verbatim>\<open>LIVEKIT_API_KEY\<close>, \<^verbatim>\<open>LIVEKIT_API_SECRET\<close> and
  \<^verbatim>\<open>LIVEKIT_URL\<close> is absent (or empty), then a request whose room and username are both
  present and not empty is answered with status 500 and the body
  \<^verbatim>\<open>{ error: "Server configuration error" }\<close>, and a request that is not valid is answered
  with status 400 and the body \<^verbatim>\<open>{ error: "Missing room or username" }\<close>, the parameters
  being checked first; so every request, valid or not, is answered with an error object,
  neither \<^verbatim>\<open>createRoom\<close> nor \<^verbatim>\<open>toJwt\<close> is called, and the outside world is left as it was.
\<close>

theorem config_guard:
  assumes "falsy (env ''LIVEKIT_API_KEY'') \<or> falsy (env ''LIVEKIT_API_SECRET'') \<or>
           falsy (env ''LIVEKIT_URL'')"
  shows "(valid_request req r u \<longrightarrow>
            GET sdk env req w =
              (Inr \<lparr>status = 500, body = [(''error'', JStr ''Server configuration error'')]\<rparr>,
               [ConsoleError ''LiveKit credentials not set'' None], w)) \<and>
         (\<not> (\<exists>r' u'. valid_request req r' u') \<longrightarrow>
            GET sdk env req w =
              (Inr \<lparr>status = 400, body = [(''error'', JStr ''Missing room or username'')]\<rparr>,
               [], w)) \<and>
         (\<exists>resp. fst (GET sdk env req w) = Inr resp \<and> status resp \<in> {400, 500} \<and>
                 (\<exists>msg. body resp = [(''error'', JStr msg)])) \<and>
         list_all (\<lambda>ev. case ev of CreateRoomCall _ _ \<Rightarrow> False | ToJwtCall _ \<Rightarrow> False | _ \<Rightarrow> True)
           (fst (snd (GET sdk env req w))) \<and>
         snd (snd (GET sdk env req w)) = w"
proof (cases "falsy (searchParams_get (searchParams req) ''room'') \<or>
              falsy (searchParams_get (searchParams req) ''username'')")
  case True
  then have "\<not> valid_request req r u" by (auto simp add: valid_request_def)
  then show ?thesis by (simp add: GET_invalid [OF True])
next
  case False
  then have "\<exists>r' u'. valid_request req r' u'"
    unfolding valid_request_def by (metis not_falsy)
  with False show ?thesis using assms by (simp add: GET_config_missing)
qed

theorem config_guard_witness:
  "falsy ((demo_env(''LIVEKIT_URL'' := None)) ''LIVEKIT_URL'') \<and>
   valid_request demo_request ''kairos-1700000000-ab12cd'' ''Alex'' \<and>
   GET demo_sdk (demo_env(''LIVEKIT_URL'' := None)) demo_request [] =
     (Inr \<lparr>status = 500, body = [(''error'', JStr ''Server configuration error'')]\<rparr>,
      [ConsoleError ''LiveKit credentials not set'' None], []) \<and>
   \<not> (\<exists>r' u'. valid_request \<lparr>searchParams = [(''username'', ''Alex'')]\<rparr> r' u') \<and>
   GET demo_sdk (demo_env(''LIVEKIT_URL'' := None)) \<lparr>searchParams = [(''username'', ''Alex'')]\<rparr> [] =
     (Inr \<lparr>status = 400, body = [(''error'', JStr ''Missing room or username'')]\<rparr>, [], [])"
proof -
  have h: "falsy ((demo_env(''LIVEKIT_URL'' := None)) ''LIVEKIT_API_KEY'') \<or>
           falsy ((demo_env(''LIVEKIT_URL'' := None)) ''LIVEKIT_API_SECRET'') \<or>
           falsy ((demo_env(''LIVEKIT_URL'' := None)) ''LIVEKIT_URL'')"
    by simp
  have n: "\<not> (\<exists>r' u'. valid_request \<lparr>searchParams = [(''username'', ''Alex'')]\<rparr> r' u')"
    by (simp add: valid_request_def searchParams_get_def)
  show ?thesis
    using config_guard [OF h, of demo_request "''kairos-1700000000-ab12cd''" "''Alex''" demo_sdk "[]"]
      config_guard [OF h, of "\<lparr>searchParams = [(''username'', ''Alex'')]\<rparr>" "''r''" "''u''"
        demo_sdk "[]"]
      demo_valid n
    by (simp add: fun_upd_def)
qed

text \<open>
  The claim as it was written, with the 500 response for every request whether valid or
  not, fails: the parameters are checked first (line 8), so a request without a room is
  answered with status 400 also when the signing key is not set.
\<close>

theorem config_error_not_returned_for_invalid_request:
  "(demo_env(''LIVEKIT_API_KEY'' := None)) ''LIVEKIT_API_KEY'' = None \<and>
   GET demo_sdk (demo_env(''LIVEKIT_API_KEY'' := None)) \<lparr>searchParams = [(''username'', ''Alex'')]\<rparr> [] =
     (Inr \<lparr>status = 400, body = [(''error'', JStr ''Missing room or username'')]\<rparr>, [], [])"
  by (simp add: GET_invalid searchParams_get_def)

subsection \<open>The validation guard\<close>

text \<open>
  Claim C2, as amended. If the room parameter or the username parameter is missing or is
  the empty string, the handler answers with status 400 and the body
  \<^verbatim>\<open>{ error: "Missing room or username" }\<close>, makes no outside call at all (no room creation,
  no signing, no log line) and leaves the world as it was.
\<close>

theorem validation_guard:
  assumes "searchParams_get (searchParams req) ''room'' \<in> {None, Some []} \<or>
           searchParams_get (searchParams req) ''username'' \<in> {None, Some []}"
  shows "GET sdk env req w =
           (Inr \<lparr>status = 400, body = [(''error'', JStr ''Missing room or username'')]\<rparr>, [], w)"
  using assms by (intro GET_invalid) auto

theorem validation_guard_witness:
  "searchParams_get (searchParams \<lparr>searchParams = [(''room'', ''''), (''username'', ''Alex'')]\<rparr>) ''room''
     = Some [] \<and>
   GET demo_sdk demo_env \<lparr>searchParams = [(''room'', ''''), (''username'', ''Alex'')]\<rparr> [] =
     (Inr \<lparr>status = 400, body = [(''error'', JStr ''Missing room or username'')]\<rparr>, [], [])"
  using validation_guard [of "\<lparr>searchParams = [(''room'', ''''), (''username'', ''Alex'')]\<rparr>"
      demo_sdk demo_env "[]"]
  by (simp add: searchParams_get_def)

text \<open>
  The claim as it was written rejects parameters that are empty after trimming. The
  handler does not trim: a room name of one space passes the guard, the room is created
  and a token is issued.
\<close>

theorem blank_room_is_served:
  "trim '' '' = [] \<and>
   GET demo_sdk demo_env \<lparr>searchParams = [(''room'', '' ''), (''username'', ''Alex'')]\<rparr> [] =
     (Inr \<lparr>status = 200,
           body = [(''token'', JStr ''jwt:Alex''), (''url'', JStr ''wss://kairos.example'')]\<rparr>,
      [CreateRoomCall (RoomServiceClient ''wss://kairos.example'' ''devkey'' ''devsecret'')
         \<lparr>name = '' '', emptyTimeout = 600, maxParticipants = 2,
          metadata = JSON_stringify [(''created_by'', JStr ''Alex'')]\<rparr>,
       ToJwtCall \<lparr>apiKey = ''devkey'', apiSecret = ''devsecret'', identity = ''Alex'', ttl = ''1h'',
          video = [(''roomJoin'', JBool True), (''room'', JStr '' ''),
               (''canPublish'', JBool True), (''canSubscribe'', JBool True),
               (''canPublishData'', JBool True), (''agent'', JBool True)]\<rparr>],
      ['' ''])"
proof -
  have v: "valid_request \<lparr>searchParams = [(''room'', '' ''), (''username'', ''Alex'')]\<rparr> '' '' ''Alex''"
    by (simp add: valid_request_def searchParams_get_def)
  have t: "trim '' '' = []" by (simp add: trim_def is_white_space_def)
  show ?thesis
    by (simp add: t GET_valid [OF v demo_complete] try_block_def Let_def demo_sdk_def
        demo_createRoom_def AccessToken_def addGrant_def NextResponse_json_def)
qed

subsection \<open>Recovery from a failed room creation\<close>

text \<open>
  Claim C3, as amended. For a valid request and a complete configuration: when
  \<^verbatim>\<open>createRoom\<close> throws, whatever it throws, and the signing that follows succeeds, the
  handler logs the error, signs the token and answers with status 200 and
  \<^verbatim>\<open>{ token, url }\<close>; and with a signer that does not fail, two requests for the same room,
  one after the other, are both answered with status 200, whatever the room service does
  with the second creation.
\<close>

theorem provisioning_failure_recovered:
  assumes "complete_config env k s url"
    and "valid_request req r u" and "valid_request req' r u'"
  shows "(\<forall>e w1 tok w2.
            createRoom sdk (RoomServiceClient url k s)
              \<lparr>name = r, emptyTimeout = 600, maxParticipants = 2,
               metadata = JSON_stringify [(''created_by'', JStr u)]\<rparr> w = (Inl e, w1) \<and>
            toJwt sdk
              \<lparr>apiKey = k, apiSecret = s, identity = u, ttl = ''1h'',
               video = [(''roomJoin'', JBool True), (''room'', JStr r),
                        (''canPublish'', JBool True), (''canSubscribe'', JBool True),
                        (''canPublishData'', JBool True), (''agent'', JBool True)]\<rparr> w1
              = (Inr tok, w2) \<longrightarrow>
            GET sdk env req w =
              (Inr \<lparr>status = 200, body = [(''token'', JStr tok), (''url'', JStr url)]\<rparr>,
               [CreateRoomCall (RoomServiceClient url k s)
                  \<lparr>name = r, emptyTimeout = 600, maxParticipants = 2,
                   metadata = JSON_stringify [(''created_by'', JStr u)]\<rparr>,
                ConsoleError ''Error creating room/token:'' (Some e),
                ToJwtCall \<lparr>apiKey = k, apiSecret = s, identity = u, ttl = ''1h'',
                  video = [(''roomJoin'', JBool True), (''room'', JStr r),
                           (''canPublish'', JBool True), (''canSubscribe'', JBool True),
                           (''canPublishData'', JBool True), (''agent'', JBool True)]\<rparr>],
               w2)) \<and>
         ((\<forall>a w0. \<exists>tok w0'. toJwt sdk a w0 = (Inr tok, w0')) \<longrightarrow>
          (\<exists>tok tok'.
             fst (GET sdk env req w) =
               Inr \<lparr>status = 200, body = [(''token'', JStr tok), (''url'', JStr url)]\<rparr> \<and>
             fst (GET sdk env req' (snd (snd (GET sdk env req w)))) =
               Inr \<lparr>status = 200, body = [(''token'', JStr tok'), (''url'', JStr url)]\<rparr>))"
proof -
  have ok: "\<exists>tok. fst (GET sdk env q v) = Inr (token_response tok url)"
    if "valid_request q r p" and sg: "\<forall>a w0. \<exists>tok w0'. toJwt sdk a w0 = (Inr tok, w0')"
    for q p v
    using that(1) assms(1)
  proof (cases rule: GET_valid_cases [where sdk = sdk and w = v])
    case (signing_failed_twice w1 e w2 e' w3)
    with sg show ?thesis by (metis Inl_Inr_False prod.inject)
  next
    case (recovery_failed e w1 e' w2)
    with sg show ?thesis by (metis Inl_Inr_False prod.inject)
  qed simp_all
  have first: "GET sdk env req w =
               (Inr (token_response tok url),
                [CreateRoomCall (RoomServiceClient url k s) (room_options r u),
                 ConsoleError ''Error creating room/token:'' (Some e),
                 ToJwtCall (join_token k s r u)], w2)"
    if c: "createRoom sdk (RoomServiceClient url k s) (room_options r u) w = (Inl e, w1)"
      and j: "toJwt sdk (join_token k s r u) w1 = (Inr tok, w2)" for e w1 tok w2
    using assms(2,1)
  proof (cases rule: GET_valid_cases [where sdk = sdk and w = w])
    case (recovered e' w1' tok' w2')
    with c j show ?thesis by simp
  next
    case (recovery_failed e' w1' e'' w2')
    with c j show ?thesis by simp
  qed (simp_all add: c)
  from ok [OF assms(2)] ok [OF assms(3)] first show ?thesis by blast
qed

theorem provisioning_failure_recovered_witness:
  "complete_config demo_env ''devkey'' ''devsecret'' ''wss://kairos.example'' \<and>
   valid_request demo_request ''kairos-1700000000-ab12cd'' ''Alex'' \<and>
   valid_request \<lparr>searchParams = [(''room'', ''kairos-1700000000-ab12cd''), (''username'', ''Sam'')]\<rparr>
     ''kairos-1700000000-ab12cd'' ''Sam'' \<and>
   (\<forall>a w0. \<exists>tok w0'. toJwt demo_sdk a w0 = (Inr tok, w0')) \<and>
   createRoom demo_sdk (RoomServiceClient ''wss://kairos.example'' ''devkey'' ''devsecret'')
     \<lparr>name = ''kairos-1700000000-ab12cd'', emptyTimeout = 600, maxParticipants = 2,
      metadata = JSON_stringify [(''created_by'', JStr ''Sam'')]\<rparr> [''kairos-1700000000-ab12cd'']
     = (Inl (Error ''room already exists''), [''kairos-1700000000-ab12cd'']) \<and>
   GET demo_sdk demo_env
       \<lparr>searchParams = [(''room'', ''kairos-1700000000-ab12cd''), (''username'', ''Sam'')]\<rparr>
       [''kairos-1700000000-ab12cd''] =
      (Inr \<lparr>status = 200,
            body = [(''token'', JStr ''jwt:Sam''), (''url'', JStr ''wss://kairos.example'')]\<rparr>,
       [CreateRoomCall (RoomServiceClient ''wss://kairos.example'' ''devkey'' ''devsecret'')
          \<lparr>name = ''kairos-1700000000-ab12cd'', emptyTimeout = 600, maxParticipants = 2,
           metadata = JSON_stringify [(''created_by'', JStr ''Sam'')]\<rparr>,
        ConsoleError ''Error creating room/token:'' (Some (Error ''room already exists'')),
        ToJwtCall \<lparr>apiKey = ''devkey'', apiSecret = ''devsecret'', identity = ''Sam'', ttl = ''1h'',
          video = [(''roomJoin'', JBool True), (''room'', JStr ''kairos-1700000000-ab12cd''),
                   (''canPublish'', JBool True), (''canSubscribe'', JBool True),
                   (''canPublishData'', JBool True), (''agent'', JBool True)]\<rparr>],
       [''kairos-1700000000-ab12cd'']) \<and>
   (\<exists>tok tok'.
      fst (GET demo_sdk demo_env demo_request []) =
        Inr \<lparr>status = 200, body = [(''token'', JStr tok), (''url'', JStr ''wss://kairos.example'')]\<rparr> \<and>
      fst (GET demo_sdk demo_env
             \<lparr>searchParams = [(''room'', ''kairos-1700000000-ab12cd''), (''username'', ''Sam'')]\<rparr>
             (snd (snd (GET demo_sdk demo_env demo_request [])))) =
        Inr \<lparr>status = 200, body = [(''token'', JStr tok'), (''url'', JStr ''wss://kairos.example'')]\<rparr>)"
proof -
  let ?req' = "\<lparr>searchParams = [(''room'', ''kairos-1700000000-ab12cd''), (''username'', ''Sam'')]\<rparr>"
  have v: "valid_request ?req' ''kairos-1700000000-ab12cd'' ''Sam''"
    by (simp add: valid_request_def searchParams_get_def)
  have sg: "\<forall>a w0. \<exists>tok w0'. toJwt demo_sdk a w0 = (Inr tok, w0')"
    by (simp add: demo_sdk_def)
  have c: "createRoom demo_sdk (RoomServiceClient ''wss://kairos.example'' ''devkey'' ''devsecret'')
     (room_options ''kairos-1700000000-ab12cd'' ''Sam'') [''kairos-1700000000-ab12cd'']
     = (Inl (Error ''room already exists''), [''kairos-1700000000-ab12cd''])"
    by (simp add: demo_sdk_def demo_createRoom_def)
  have j: "toJwt demo_sdk (join_token ''devkey'' ''devsecret'' ''kairos-1700000000-ab12cd'' ''Sam'')
       [''kairos-1700000000-ab12cd''] = (Inr ''jwt:Sam'', [''kairos-1700000000-ab12cd''])"
    by (simp add: demo_sdk_def)
  from provisioning_failure_recovered [OF demo_complete v demo_valid,
      of demo_sdk "[''kairos-1700000000-ab12cd'']"] c j
  have second: "GET demo_sdk demo_env ?req' [''kairos-1700000000-ab12cd''] =
      (Inr (token_response ''jwt:Sam'' ''wss://kairos.example''),
       [CreateRoomCall (RoomServiceClient ''wss://kairos.example'' ''devkey'' ''devsecret'')
          (room_options ''kairos-1700000000-ab12cd'' ''Sam''),
        ConsoleError ''Error creating room/token:'' (Some (Error ''room already exists'')),
        ToJwtCall (join_token ''devkey'' ''devsecret'' ''kairos-1700000000-ab12cd'' ''Sam'')],
       [''kairos-1700000000-ab12cd''])"
    by blast
  from provisioning_failure_recovered [OF demo_complete demo_valid v, of demo_sdk "[]"] sg
  have both: "\<exists>tok tok'.
      fst (GET demo_sdk demo_env demo_request []) =
        Inr (token_response tok ''wss://kairos.example'') \<and>
      fst (GET demo_sdk demo_env ?req' (snd (snd (GET demo_sdk demo_env demo_request [])))) =
        Inr (token_response tok' ''wss://kairos.example'')"
    by blast
  from demo_complete demo_valid v sg c second both show ?thesis by blast
qed

text \<open>
  Without the proviso the claim fails: when the room exists already, so that \<^verbatim>\<open>createRoom\<close>
  throws, and the signer throws too, the handler does not answer with status 200.
\<close>

theorem provisioning_failure_with_signing_failure:
  "complete_config demo_env ''devkey'' ''devsecret'' ''wss://kairos.example'' \<and>
   valid_request demo_request ''kairos-1700000000-ab12cd'' ''Alex'' \<and>
   createRoom broken_signer_sdk (RoomServiceClient ''wss://kairos.example'' ''devkey'' ''devsecret'')
     \<lparr>name = ''kairos-1700000000-ab12cd'', emptyTimeout = 600, maxParticipants = 2,
      metadata = JSON_stringify [(''created_by'', JStr ''Alex'')]\<rparr> [''kairos-1700000000-ab12cd'']
     = (Inl (Error ''room already exists''), [''kairos-1700000000-ab12cd'']) \<and>
   fst (GET broken_signer_sdk demo_env demo_request [''kairos-1700000000-ab12cd''])
     = Inl (Error ''signing failed'')"
  by (simp add: demo_complete demo_valid GET_valid [OF demo_valid demo_complete] try_block_def
      catch_block_def Let_def broken_signer_sdk_def demo_createRoom_def)

subsection \<open>Identity and grants of the issued token\<close>

text \<open>
  Claim C4. For a valid request and a complete configuration, the token of a success
  response is what \<^verbatim>\<open>toJwt\<close> returned for an access token whose identity is the username and
  whose grant has exactly the six fields \<^verbatim>\<open>roomJoin: true\<close>, \<^verbatim>\<open>room\<close> (the requested room),
  \<^verbatim>\<open>canPublish: true\<close>, \<^verbatim>\<open>canSubscribe: true\<close>, \<^verbatim>\<open>canPublishData: true\<close> and \<^verbatim>\<open>agent: true\<close>:
  room-join for that room and the same four capabilities for every caller.
\<close>

theorem token_identity_and_grants:
  assumes "valid_request req r u" and "complete_config env k s url"
    and "GET sdk env req w = (Inr resp, evs, w')"
  shows "\<exists>a tok w0.
           last evs = ToJwtCall a \<and>
           toJwt sdk a w0 = (Inr tok, w') \<and>
           body resp = [(''token'', JStr tok), (''url'', JStr url)] \<and>
           identity a = u \<and>
           map_of (video a) =
             [''roomJoin'' \<mapsto> JBool True, ''room'' \<mapsto> JStr r, ''canPublish'' \<mapsto> JBool True,
              ''canSubscribe'' \<mapsto> JBool True, ''canPublishData'' \<mapsto> JBool True,
              ''agent'' \<mapsto> JBool True]"
proof -
  have g: "map_of (video (join_token k s r u)) =
             [''roomJoin'' \<mapsto> JBool True, ''room'' \<mapsto> JStr r, ''canPublish'' \<mapsto> JBool True,
              ''canSubscribe'' \<mapsto> JBool True, ''canPublishData'' \<mapsto> JBool True,
              ''agent'' \<mapsto> JBool True]"
    by (rule ext) simp
  have "\<exists>tok w0. last evs = ToJwtCall (join_token k s r u) \<and>
           toJwt sdk (join_token k s r u) w0 = (Inr tok, w') \<and>
           body resp = [(''token'', JStr tok), (''url'', JStr url)]"
    using assms(1,2)
  proof (cases rule: GET_valid_cases [where sdk = sdk and w = w])
    case (created w1 tok w2)
    with assms(3) show ?thesis by auto
  next
    case (signed_again w1 e w2 tok w3)
    with assms(3) show ?thesis by auto
  next
    case (recovered e w1 tok w2)
    with assms(3) show ?thesis by auto
  qed (use assms(3) in simp_all)
  with g show ?thesis
    by (metis access_token.select_convs(3))
qed

theorem token_identity_and_grants_witness:
  "valid_request demo_request ''kairos-1700000000-ab12cd'' ''Alex'' \<and>
   complete_config demo_env ''devkey'' ''devsecret'' ''wss://kairos.example'' \<and>
   GET demo_sdk demo_env demo_request [] =
     (Inr \<lparr>status = 200,
           body = [(''token'', JStr ''jwt:Alex''), (''url'', JStr ''wss://kairos.example'')]\<rparr>,
      [CreateRoomCall (RoomServiceClient ''wss://kairos.example'' ''devkey'' ''devsecret'')
         \<lparr>name = ''kairos-1700000000-ab12cd'', emptyTimeout = 600, maxParticipants = 2,
          metadata = JSON_stringify [(''created_by'', JStr ''Alex'')]\<rparr>,
       ToJwtCall \<lparr>apiKey = ''devkey'', apiSecret = ''devsecret'', identity = ''Alex'', ttl = ''1h'',
          video = [(''roomJoin'', JBool True), (''room'', JStr ''kairos-1700000000-ab12cd''),
               (''canPublish'', JBool True), (''canSubscribe'', JBool True),
               (''canPublishData'', JBool True), (''agent'', JBool True)]\<rparr>],
      [''kairos-1700000000-ab12cd'']) \<and>
   (\<exists>a tok w0.
      ToJwtCall \<lparr>apiKey = ''devkey'', apiSecret = ''devsecret'', identity = ''Alex'', ttl = ''1h'',
          video = [(''roomJoin'', JBool True), (''room'', JStr ''kairos-1700000000-ab12cd''),
               (''canPublish'', JBool True), (''canSubscribe'', JBool True),
               (''canPublishData'', JBool True), (''agent'', JBool True)]\<rparr> = ToJwtCall a \<and>
      toJwt demo_sdk a w0 = (Inr tok, [''kairos-1700000000-ab12cd'']) \<and>
      [(''token'', JStr ''jwt:Alex''), (''url'', JStr ''wss://kairos.example'')] =
        [(''token'', JStr tok), (''url'', JStr ''wss://kairos.example'')] \<and>
      identity a = ''Alex'' \<and>
      map_of (video a) =
        [''roomJoin'' \<mapsto> JBool True, ''room'' \<mapsto> JStr ''kairos-1700000000-ab12cd'',
         ''canPublish'' \<mapsto> JBool True, ''canSubscribe'' \<mapsto> JBool True,
         ''canPublishData'' \<mapsto> JBool True, ''agent'' \<mapsto> JBool True])"
proof -
  have run: "GET demo_sdk demo_env demo_request [] =
     (Inr (token_response ''jwt:Alex'' ''wss://kairos.example''),
      [CreateRoomCall (RoomServiceClient ''wss://kairos.example'' ''devkey'' ''devsecret'')
         (room_options ''kairos-1700000000-ab12cd'' ''Alex''),
       ToJwtCall (join_token ''devkey'' ''devsecret'' ''kairos-1700000000-ab12cd'' ''Alex'')],
      [''kairos-1700000000-ab12cd''])"
    by (simp add: GET_valid [OF demo_valid demo_complete] try_block_def Let_def demo_sdk_def
        demo_createRoom_def AccessToken_def addGrant_def NextResponse_json_def)
  from token_identity_and_grants [OF demo_valid demo_complete run]
  show ?thesis using demo_valid demo_complete run by simp
qed

subsection \<open>Time to live\<close>

text \<open>
  Claim C6. Every token the handler hands to the signer, for any request, has the ttl
  \<^verbatim>\<open>"1h"\<close>, that is 3600 seconds: signed at time \<open>T\<close>, it is valid 59 minutes later and
  expired 61 minutes later.
\<close>

theorem token_lives_one_hour:
  "\<forall>ev \<in> set (fst (snd (GET sdk env req w))). \<forall>a. ev = ToJwtCall a \<longrightarrow>
     ttl a = ''1h'' \<and> ttl_seconds (ttl a) = Some (60 * 60) \<and>
     valid_at a T (T + 59 * 60) \<and> \<not> valid_at a T (T + 61 * 60)"
  using GET_signs_join_tokens [of sdk env req w]
  by (auto simp add: valid_at_def ttl_one_hour)

theorem token_lives_one_hour_witness:
  "ToJwtCall \<lparr>apiKey = ''devkey'', apiSecret = ''devsecret'', identity = ''Alex'', ttl = ''1h'',
          video = [(''roomJoin'', JBool True), (''room'', JStr ''kairos-1700000000-ab12cd''),
               (''canPublish'', JBool True), (''canSubscribe'', JBool True),
               (''canPublishData'', JBool True), (''agent'', JBool True)]\<rparr>
     \<in> set (fst (snd (GET demo_sdk demo_env demo_request []))) \<and>
   valid_at \<lparr>apiKey = ''devkey'', apiSecret = ''devsecret'', identity = ''Alex'', ttl = ''1h'',
          video = [(''roomJoin'', JBool True), (''room'', JStr ''kairos-1700000000-ab12cd''),
               (''canPublish'', JBool True), (''canSubscribe'', JBool True),
               (''canPublishData'', JBool True), (''agent'', JBool True)]\<rparr>
     1700000000 (1700000000 + 59 * 60) \<and>
   \<not> valid_at \<lparr>apiKey = ''devkey'', apiSecret = ''devsecret'', identity = ''Alex'', ttl = ''1h'',
          video = [(''roomJoin'', JBool True), (''room'', JStr ''kairos-1700000000-ab12cd''),
               (''canPublish'', JBool True), (''canSubscribe'', JBool True),
               (''canPublishData'', JBool True), (''agent'', JBool True)]\<rparr>
     1700000000 (1700000000 + 61 * 60)"
proof -
  have run: "fst (snd (GET demo_sdk demo_env demo_request [])) =
      [CreateRoomCall (RoomServiceClient ''wss://kairos.example'' ''devkey'' ''devsecret'')
         (room_options ''kairos-1700000000-ab12cd'' ''Alex''),
       ToJwtCall (join_token ''devkey'' ''devsecret'' ''kairos-1700000000-ab12cd'' ''Alex'')]"
    by (simp add: GET_valid [OF demo_valid demo_complete] try_block_def Let_def demo_sdk_def
        demo_createRoom_def AccessToken_def addGrant_def NextResponse_json_def)
  then have m: "ToJwtCall (join_token ''devkey'' ''devsecret'' ''kairos-1700000000-ab12cd'' ''Alex'')
     \<in> set (fst (snd (GET demo_sdk demo_env demo_request [])))"
    by simp
  from token_lives_one_hour [of demo_sdk demo_env demo_request "[]" 1700000000] m
  show ?thesis by blast
qed

subsection \<open>The options of the room creation\<close>



subsection \<open>The success response\<close>

text \<open>
  Claim C8. For a valid request and a complete configuration, a response of the handler
  has status 200 and a body of exactly the two fields \<^verbatim>\<open>token\<close>, a string that \<^verbatim>\<open>toJwt\<close>
  returned, and \<^verbatim>\<open>url\<close>, the value of \<^verbatim>\<open>LIVEKIT_URL\<close>, whether room creation succeeded or
  threw.
\<close>

theorem success_response_shape:
  assumes "valid_request req r u" and "complete_config env k s url"
    and "fst (GET sdk env req w) = Inr resp"
  shows "status resp = 200 \<and>
         (\<exists>tok a w0 w0'. toJwt sdk a w0 = (Inr tok, w0') \<and>
            body resp = [(''token'', JStr tok), (''url'', JStr url)]) \<and>
         map_of (body resp) ''url'' = map_option JStr (env ''LIVEKIT_URL'')"
proof -
  have u: "env ''LIVEKIT_URL'' = Some url" using assms(2) by (simp add: complete_config_def)
  have fin: ?thesis
    if "toJwt sdk a w0 = (Inr tok, w0')" and "resp = token_response tok url" for a w0 tok w0'
  proof -
    from that(1) have "\<exists>a w0 w0'. toJwt sdk a w0 = (Inr tok, w0')" by blast
    with that(2) u show ?thesis by simp
  qed
  show ?thesis
    using assms(1,2)
  proof (cases rule: GET_valid_cases [where sdk = sdk and w = w])
    case (created w1 tok w2)
    with assms(3) show ?thesis by (intro fin [OF created(2)]) simp
  next
    case (signed_again w1 e w2 tok w3)
    with assms(3) show ?thesis by (intro fin [OF signed_again(3)]) simp
  next
    case (recovered e w1 tok w2)
    with assms(3) show ?thesis by (intro fin [OF recovered(2)]) simp
  qed (use assms(3) in simp_all)
qed

theorem success_response_shape_witness:
  "valid_request demo_request ''kairos-1700000000-ab12cd'' ''Alex'' \<and>
   complete_config demo_env ''devkey'' ''devsecret'' ''wss://kairos.example'' \<and>
   fst (createRoom demo_sdk (RoomServiceClient ''wss://kairos.example'' ''devkey'' ''devsecret'')
     \<lparr>name = ''kairos-1700000000-ab12cd'', emptyTimeout = 600, maxParticipants = 2,
      metadata = JSON_stringify [(''created_by'', JStr ''Alex'')]\<rparr> []) = Inr () \<and>
   fst (GET demo_sdk demo_env demo_request []) =
     Inr \<lparr>status = 200,
          body = [(''token'', JStr ''jwt:Alex''), (''url'', JStr ''wss://kairos.example'')]\<rparr> \<and>
   fst (createRoom demo_sdk (RoomServiceClient ''wss://kairos.example'' ''devkey'' ''devsecret'')
     \<lparr>name = ''kairos-1700000000-ab12cd'', emptyTimeout = 600, maxParticipants = 2,
      metadata = JSON_stringify [(''created_by'', JStr ''Alex'')]\<rparr> [''kairos-1700000000-ab12cd''])
     = Inl (Error ''room already exists'') \<and>
   fst (GET demo_sdk demo_env demo_request [''kairos-1700000000-ab12cd'']) =
     Inr \<lparr>status = 200,
          body = [(''token'', JStr ''jwt:Alex''), (''url'', JStr ''wss://kairos.example'')]\<rparr> \<and>
   map_of [(''token'', JStr ''jwt:Alex''), (''url'', JStr ''wss://kairos.example'')] ''url''
     = map_option JStr (demo_env ''LIVEKIT_URL'')"
proof -
  have r1: "fst (GET demo_sdk demo_env demo_request []) =
      Inr (token_response ''jwt:Alex'' ''wss://kairos.example'')"
    by (simp add: GET_valid [OF demo_valid demo_complete] try_block_def Let_def demo_sdk_def
        demo_createRoom_def AccessToken_def addGrant_def NextResponse_json_def)
  have r2: "fst (GET demo_sdk demo_env demo_request [''kairos-1700000000-ab12cd'']) =
      Inr (token_response ''jwt:Alex'' ''wss://kairos.example'')"
    by (simp add: GET_valid [OF demo_valid demo_complete] try_block_def catch_block_def Let_def
        demo_sdk_def demo_createRoom_def AccessToken_def addGrant_def NextResponse_json_def)
  have c: "fst (createRoom demo_sdk (RoomServiceClient ''wss://kairos.example'' ''devkey'' ''devsecret'')
       (room_options ''kairos-1700000000-ab12cd'' ''Alex'') []) = Inr ()"
    "fst (createRoom demo_sdk (RoomServiceClient ''wss://kairos.example'' ''devkey'' ''devsecret'')
       (room_options ''kairos-1700000000-ab12cd'' ''Alex'') [''kairos-1700000000-ab12cd''])
     = Inl (Error ''room already exists'')"
    by (simp_all add: demo_sdk_def demo_createRoom_def)
  from success_response_shape [OF demo_valid demo_complete r1]
    success_response_shape [OF demo_valid demo_complete r2]
  show ?thesis using demo_valid demo_complete r1 r2 c by simp
qed

subsection \<open>Calls to the room service\<close>

text \<open>
  Claim C9. An execution of the handler calls the room service at most once; it never
  calls it to delete a room or to change one; for a valid request and a complete
  configuration it calls it exactly once, to create the requested room; otherwise it
  makes no outside call but a log line and leaves the world as it was. When signing has
  no effect on the world, the world after the handler is the world after that one
  \<^verbatim>\<open>createRoom\<close> call.
\<close>

theorem one_room_creation_at_most:
  "length (filter room_service_call (fst (snd (GET sdk env req w)))) \<le> 1 \<and>
   list_all (\<lambda>ev. \<not> changes_existing_room ev) (fst (snd (GET sdk env req w))) \<and>
   (valid_request req r u \<and> complete_config env k s url \<longrightarrow>
      filter room_service_call (fst (snd (GET sdk env req w))) =
        [CreateRoomCall (RoomServiceClient url k s)
           \<lparr>name = r, emptyTimeout = 600, maxParticipants = 2,
            metadata = JSON_stringify [(''created_by'', JStr u)]\<rparr>]) \<and>
   (\<not> (\<exists>r u. valid_request req r u) \<or> \<not> (\<exists>k s url. complete_config env k s url) \<longrightarrow>
      fst (snd (GET sdk env req w)) \<in> {[], [ConsoleError ''LiveKit credentials not set'' None]} \<and>
      snd (snd (GET sdk env req w)) = w) \<and>
   ((\<forall>a w0. snd (toJwt sdk a w0) = w0) \<and> valid_request req r u \<and> complete_config env k s url \<longrightarrow>
      snd (snd (GET sdk env req w)) =
        snd (createRoom sdk (RoomServiceClient url k s)
               \<lparr>name = r, emptyTimeout = 600, maxParticipants = 2,
                metadata = JSON_stringify [(''created_by'', JStr u)]\<rparr> w))"
proof -
  have calls: "filter room_service_call (fst (snd (GET sdk env req w))) =
        [CreateRoomCall (RoomServiceClient url k s) (room_options r u)] \<and>
      list_all (\<lambda>ev. \<not> changes_existing_room ev) (fst (snd (GET sdk env req w)))"
    if "valid_request req r u" "complete_config env k s url" for r u k s url
    using that by (cases rule: GET_valid_cases [where sdk = sdk and w = w]) simp_all
  have frame: "snd (snd (GET sdk env req w)) =
          snd (createRoom sdk (RoomServiceClient url k s) (room_options r u) w)"
    if "valid_request req r u" "complete_config env k s url"
      and pure: "\<forall>a w0. snd (toJwt sdk a w0) = w0" for r u k s url
  proof -
    have p: "w' = w0" if "toJwt sdk a w0 = (x, w')" for a w0 x w'
      using pure that by (metis snd_conv)
    show ?thesis
      using that(1,2)
    proof (cases rule: GET_valid_cases [where sdk = sdk and w = w])
      case (created w1 tok w2)
      with p [OF created(2)] show ?thesis by simp
    next
      case (signed_again w1 e w2 tok w3)
      with p [OF signed_again(2)] p [OF signed_again(3)] show ?thesis by simp
    next
      case (signing_failed_twice w1 e w2 e' w3)
      with p [OF signing_failed_twice(2)] p [OF signing_failed_twice(3)] show ?thesis by simp
    next
      case (recovered e w1 tok w2)
      with p [OF recovered(2)] show ?thesis by simp
    next
      case (recovery_failed e w1 e' w2)
      with p [OF recovery_failed(2)] show ?thesis by simp
    qed
  qed
  show ?thesis
  proof (cases rule: GET_guards [where req = req and env = env])
    case invalid
    then have "\<not> valid_request req r u" by (auto simp add: valid_request_def)
    then show ?thesis by (simp add: GET_invalid [OF invalid])
  next
    case (unconfigured r' u')
    then have "\<not> complete_config env k s url" by (auto simp add: complete_config_def)
    moreover have "GET sdk env req w =
           (Inr \<lparr>status = 500, body = [(''error'', JStr ''Server configuration error'')]\<rparr>,
            [ConsoleError ''LiveKit credentials not set'' None], w)"
      using unconfigured by (intro GET_config_missing) (auto simp add: valid_request_def)
    ultimately show ?thesis by simp
  next
    case (served r' u' k' s' url')
    from served(1) have v: "valid_request req r u \<Longrightarrow> r = r' \<and> u = u'"
      by (auto simp add: valid_request_def)
    from served(2) have c: "complete_config env k s url \<Longrightarrow> k = k' \<and> s = s' \<and> url = url'"
      by (auto simp add: complete_config_def)
    from served(1,2) have n: "\<exists>r u. valid_request req r u" "\<exists>k s url. complete_config env k s url"
      by blast+
    from calls [OF served] frame [OF served] v c n show ?thesis
      by auto
  qed
qed

theorem one_room_creation_at_most_witness:
  "valid_request demo_request ''kairos-1700000000-ab12cd'' ''Alex'' \<and>
   complete_config demo_env ''devkey'' ''devsecret'' ''wss://kairos.example'' \<and>
   (\<forall>a w0. snd (toJwt demo_sdk a w0) = w0) \<and>
   filter room_service_call (fst (snd (GET demo_sdk demo_env demo_request []))) =
     [CreateRoomCall (RoomServiceClient ''wss://kairos.example'' ''devkey'' ''devsecret'')
        \<lparr>name = ''kairos-1700000000-ab12cd'', emptyTimeout = 600, maxParticipants = 2,
         metadata = JSON_stringify [(''created_by'', JStr ''Alex'')]\<rparr>] \<and>
   snd (snd (GET demo_sdk demo_env demo_request [])) = [''kairos-1700000000-ab12cd''] \<and>
   \<not> (\<exists>r u. valid_request \<lparr>searchParams = []\<rparr> r u) \<and>
   fst (snd (GET demo_sdk demo_env \<lparr>searchParams = []\<rparr> [])) = [] \<and>
   snd (snd (GET demo_sdk demo_env \<lparr>searchParams = []\<rparr> [])) = []"
proof -
  have pure: "\<forall>a w0. snd (toJwt demo_sdk a w0) = w0"
    by (simp add: demo_sdk_def)
  have none: "\<not> (\<exists>r u. valid_request \<lparr>searchParams = []\<rparr> r u)"
    by (simp add: valid_request_def searchParams_get_def)
  have c: "snd (createRoom demo_sdk (RoomServiceClient ''wss://kairos.example'' ''devkey'' ''devsecret'')
       (room_options ''kairos-1700000000-ab12cd'' ''Alex'') []) = [''kairos-1700000000-ab12cd'']"
    by (simp add: demo_sdk_def demo_createRoom_def)
  have e: "fst (snd (GET demo_sdk demo_env \<lparr>searchParams = []\<rparr> [])) = []"
    by (simp add: GET_invalid searchParams_get_def)
  from one_room_creation_at_most [of demo_sdk demo_env demo_request "[]"
      "''kairos-1700000000-ab12cd''" "''Alex''" "''devkey''" "''devsecret''" "''wss://kairos.example''"]
    one_room_creation_at_most [of demo_sdk demo_env "\<lparr>searchParams = []\<rparr>" "[]"
      "''r''" "''u''" "''k''" "''s''" "''url''"]
    demo_valid demo_complete pure none c e
  show ?thesis by simp
qed

end
